theory Spec2Isabelle
  imports Main "HOL-Library.Sublist"
begin

section \<open>Python values, strings and exceptions\<close>

text \<open>
  A Python \<open>str\<close> is modelled as a \<open>string\<close> holding its UTF-8 encoding, so the
  non-ASCII characters of the source's literals are written as their bytes.
  Substring and prefix tests on valid UTF-8 agree with the tests on code points.
  JSON numbers are integers here; floats are outside the model. A dictionary is the
  list of its entries in insertion order; the keys of a Python dictionary are distinct.
\<close>

datatype pyval =
    PNone
  | PBool bool
  | PInt int
  | PStr string
  | PList "pyval list"
  | PDict "(string \<times> pyval) list"

text \<open>Truth value testing (\<open>if x:\<close>, \<open>not x\<close>).\<close>

fun truthy :: "pyval \<Rightarrow> bool" where
  "truthy PNone = False"
| "truthy (PBool b) = b"
| "truthy (PInt i) = (i \<noteq> 0)"
| "truthy (PStr s) = (s \<noteq> [])"
| "truthy (PList xs) = (xs \<noteq> [])"
| "truthy (PDict kvs) = (kvs \<noteq> [])"

text \<open>
  Exceptions carry their class and the text \<open>str(e)\<close>. \<open>RequestException\<close> stands for
  any subclass of \<open>requests.exceptions.RequestException\<close> other than \<open>HTTPError\<close>
  (connection errors, timeouts, the JSON decoding error of current requests versions).
\<close>

datatype exc_class =
    HTTPError
  | RequestException
  | KeyError
  | TypeError
  | AttributeError
  | UnboundLocalError
  | OtherException

datatype pyexc = PyExc exc_class string

fun exc_str :: "pyexc \<Rightarrow> string" where
  "exc_str (PyExc c msg) = msg"

text \<open>The test of \<open>except requests.exceptions.RequestException\<close>.\<close>

fun is_request_exception :: "pyexc \<Rightarrow> bool" where
  "is_request_exception (PyExc c msg) = (c = HTTPError \<or> c = RequestException)"

text \<open>Reading a local variable that was never assigned.\<close>

definition unbound_local :: "string \<Rightarrow> pyexc" where
  "unbound_local v = PyExc UnboundLocalError
     (''cannot access local variable '' @ [CHR 0x27] @ v @ [CHR 0x27] @
      '' where it is not associated with a value'')"

subsection \<open>Decimal representation of integers\<close>

definition digit_char :: "nat \<Rightarrow> char" where
  "digit_char d = char_of (48 + d)"

function str_nat :: "nat \<Rightarrow> string" where
  "str_nat n = (if n < 10 then [digit_char n] else str_nat (n div 10) @ [digit_char (n mod 10)])"
  by pat_completeness auto
termination
  by (relation "measure id") auto

declare str_nat.simps [simp del]

definition str_int :: "int \<Rightarrow> string" where
  "str_int i = (if i < 0 then ''-'' @ str_nat (nat (- i)) else str_nat (nat i))"

subsection \<open>String methods\<close>

text \<open>
  \<open>str.strip()\<close> removes leading and trailing whitespace. Python's whitespace
  characters are U+0009..U+000D, U+001C..U+0020, U+0085, U+00A0, U+1680,
  U+2000..U+200A, U+2028, U+2029, U+202F, U+205F and U+3000; the predicates below
  recognise their one-, two- and three-byte encodings.
\<close>

definition ws1 :: "char \<Rightarrow> bool" where
  "ws1 a = (a \<in> set [CHR 0x09, CHR 0x0A, CHR 0x0B, CHR 0x0C, CHR 0x0D,
                       CHR 0x1C, CHR 0x1D, CHR 0x1E, CHR 0x1F, CHR 0x20])"

definition ws2 :: "char \<Rightarrow> char \<Rightarrow> bool" where
  "ws2 a b = (a = CHR 0xC2 \<and> (b = CHR 0x85 \<or> b = CHR 0xA0))"

definition ws3 :: "char \<Rightarrow> char \<Rightarrow> char \<Rightarrow> bool" where
  "ws3 a b c =
     ((a = CHR 0xE1 \<and> b = CHR 0x9A \<and> c = CHR 0x80) \<or>
      (a = CHR 0xE2 \<and> b = CHR 0x80 \<and>
         c \<in> set [CHR 0x80, CHR 0x81, CHR 0x82, CHR 0x83, CHR 0x84, CHR 0x85, CHR 0x86,
                   CHR 0x87, CHR 0x88, CHR 0x89, CHR 0x8A, CHR 0xA8, CHR 0xA9, CHR 0xAF]) \<or>
      (a = CHR 0xE2 \<and> b = CHR 0x81 \<and> c = CHR 0x9F) \<or>
      (a = CHR 0xE3 \<and> b = CHR 0x80 \<and> c = CHR 0x80))"

fun py_lstrip :: "string \<Rightarrow> string" where
  "py_lstrip (a # b # c # s) =
     (if ws1 a then py_lstrip (b # c # s)
      else if ws2 a b then py_lstrip (c # s)
      else if ws3 a b c then py_lstrip s
      else a # b # c # s)"
| "py_lstrip [a, b] = (if ws1 a then py_lstrip [b] else if ws2 a b then [] else [a, b])"
| "py_lstrip [a] = (if ws1 a then [] else [a])"
| "py_lstrip [] = []"

text \<open>The same scan on the reversed string, the bytes of a character read backwards.\<close>

fun py_lstrip_rev :: "string \<Rightarrow> string" where
  "py_lstrip_rev (c # b # a # s) =
     (if ws1 c then py_lstrip_rev (b # a # s)
      else if ws2 b c then py_lstrip_rev (a # s)
      else if ws3 a b c then py_lstrip_rev s
      else c # b # a # s)"
| "py_lstrip_rev [b, a] = (if ws1 b then py_lstrip_rev [a] else if ws2 a b then [] else [b, a])"
| "py_lstrip_rev [a] = (if ws1 a then [] else [a])"
| "py_lstrip_rev [] = []"

definition py_strip :: "string \<Rightarrow> string" where
  "py_strip s = rev (py_lstrip_rev (rev (py_lstrip s)))"

text \<open>\<open>str.lower()\<close>; the source applies it to \<open>"IMAGE"\<close> and \<open>"VIDEO"\<close> only.\<close>

definition lower_char :: "char \<Rightarrow> char" where
  "lower_char c =
     (let n = (of_char c :: nat) in if 65 \<le> n \<and> n \<le> 90 then char_of (n + 32) else c)"

definition py_lower :: "string \<Rightarrow> string" where
  "py_lower s = map lower_char s"

text \<open>\<open>sep.join(xs)\<close>.\<close>

fun py_join :: "string \<Rightarrow> string list \<Rightarrow> string" where
  "py_join sep [] = []"
| "py_join sep [x] = x"
| "py_join sep (x # y # ys) = x @ sep @ py_join sep (y # ys)"

subsection \<open>Dictionaries\<close>

text \<open>\<open>d[k]\<close> with a string key: \<open>KeyError\<close> on a dictionary without the key,
  \<open>TypeError\<close> on every other value.\<close>

fun py_getitem :: "pyval \<Rightarrow> string \<Rightarrow> pyexc + pyval" where
  "py_getitem (PDict kvs) k =
     (case map_of kvs k of
        Some v \<Rightarrow> Inr v
      | None \<Rightarrow> Inl (PyExc KeyError ([CHR 0x27] @ k @ [CHR 0x27])))"
| "py_getitem PNone k =
     Inl (PyExc TypeError ([CHR 0x27] @ ''NoneType'' @ [CHR 0x27] @ '' object is not subscriptable''))"
| "py_getitem (PBool b) k =
     Inl (PyExc TypeError ([CHR 0x27] @ ''bool'' @ [CHR 0x27] @ '' object is not subscriptable''))"
| "py_getitem (PInt i) k =
     Inl (PyExc TypeError ([CHR 0x27] @ ''int'' @ [CHR 0x27] @ '' object is not subscriptable''))"
| "py_getitem (PStr s) k =
     Inl (PyExc TypeError (''string indices must be integers, not '' @ [CHR 0x27] @ ''str'' @ [CHR 0x27]))"
| "py_getitem (PList xs) k =
     Inl (PyExc TypeError ''list indices must be integers or slices, not str'')"

text \<open>A chain of subscripts \<open>d[k1][k2]...\<close>, evaluated left to right.\<close>

fun py_getpath :: "pyval \<Rightarrow> string list \<Rightarrow> pyexc + pyval" where
  "py_getpath v [] = Inr v"
| "py_getpath v (k # ks) =
     (case py_getitem v k of Inl e \<Rightarrow> Inl e | Inr v' \<Rightarrow> py_getpath v' ks)"

text \<open>\<open>d.get(k, default)\<close>: only dictionaries have the method.\<close>

fun type_name :: "pyval \<Rightarrow> string" where
  "type_name PNone = ''NoneType''"
| "type_name (PBool b) = ''bool''"
| "type_name (PInt i) = ''int''"
| "type_name (PStr s) = ''str''"
| "type_name (PList xs) = ''list''"
| "type_name (PDict kvs) = ''dict''"

fun py_get :: "pyval \<Rightarrow> string \<Rightarrow> pyval \<Rightarrow> pyexc + pyval" where
  "py_get (PDict kvs) k d = Inr (case map_of kvs k of Some v \<Rightarrow> v | None \<Rightarrow> d)"
| "py_get v k d =
     Inl (PyExc AttributeError
       ([CHR 0x27] @ type_name v @ [CHR 0x27] @ '' object has no attribute '' @
        [CHR 0x27] @ ''get'' @ [CHR 0x27]))"

text \<open>\<open>d[k] = v\<close>: an existing key keeps its position, a new key goes last.\<close>

fun dict_set :: "(string \<times> pyval) list \<Rightarrow> string \<Rightarrow> pyval \<Rightarrow> (string \<times> pyval) list" where
  "dict_set [] k v = [(k, v)]"
| "dict_set ((k', v') # kvs) k v =
     (if k' = k then (k, v) # kvs else (k', v') # dict_set kvs k v)"

section \<open>The environment: HTTP, the text-generation service, the page\<close>

datatype http_method = GET | POST

text \<open>The \<open>json=\<close> or \<open>data=\<close> argument of a \<open>requests\<close> call.\<close>

datatype payload = NoPayload | JsonPayload pyval | DataPayload string

record request =
  verb :: http_method
  url :: pyval
  headers :: "(string \<times> string) list"
  payload :: payload

text \<open>
  What the source reads of a \<open>requests.Response\<close>: the status code, the reason phrase
  and final URL (they make the text of the \<open>HTTPError\<close>), and the outcome of
  \<open>response.json()\<close>, a decoded value or the exception the decoder raises.
\<close>

record response =
  status_code :: int
  reason :: string
  resp_url :: string
  json_result :: "pyexc + pyval"

text \<open>
  Everything outside the program is a parameter:
  \<^item> \<open>http\<close>: the outcome of \<open>requests.get\<close> / \<open>requests.post\<close>, a response or an
    exception raised before any response exists;
  \<^item> \<open>generate_content\<close>: the text of \<open>GenerativeModel(name).generate_content(prompt)\<close>,
    or the exception it raises;
  \<^item> \<open>text_area\<close>: the value of the keyed text area, given the entry stored under its
    key (if any) and its \<open>value=\<close> argument;
  \<^item> \<open>py_repr\<close>: Python's rendering of lists and dictionaries in an f-string.
\<close>

record world =
  http :: "request \<Rightarrow> pyexc + response"
  generate_content :: "string \<Rightarrow> string \<Rightarrow> pyexc + string"
  text_area :: "string option \<Rightarrow> string \<Rightarrow> string"
  py_repr :: "pyval \<Rightarrow> string"

text \<open>\<open>f"{v}"\<close>.\<close>

fun py_str :: "world \<Rightarrow> pyval \<Rightarrow> string" where
  "py_str w PNone = ''None''"
| "py_str w (PBool b) = (if b then ''True'' else ''False'')"
| "py_str w (PInt i) = str_int i"
| "py_str w (PStr s) = s"
| "py_str w (PList xs) = py_repr w (PList xs)"
| "py_str w (PDict kvs) = py_repr w (PDict kvs)"

text \<open>\<open>Response.raise_for_status()\<close> of the requests library: an \<open>HTTPError\<close> for the
  statuses 400 to 599, nothing otherwise.\<close>

definition http_error_msg :: "response \<Rightarrow> string" where
  "http_error_msg r =
     (if 400 \<le> status_code r \<and> status_code r < 500
      then str_int (status_code r) @ '' Client Error: '' @ reason r @ '' for url: '' @ resp_url r
      else if 500 \<le> status_code r \<and> status_code r < 600
      then str_int (status_code r) @ '' Server Error: '' @ reason r @ '' for url: '' @ resp_url r
      else [])"

definition raise_for_status :: "response \<Rightarrow> pyexc option" where
  "raise_for_status r =
     (if http_error_msg r \<noteq> [] then Some (PyExc HTTPError (http_error_msg r)) else None)"

text \<open>What the page shows and what it calls, in order.\<close>

datatype event =
    HttpCall request
  | GenerateContent string string
  | StError string
  | StInfo string
  | StSuccess string
  | StWarning string
  | StSpinner string
  | StWrite string
  | StImage string
  | StVideo
  | StBalloons
  | StExpander string
  | StJson pyval

text \<open>\<open>st.session_state\<close>, with string entries under the keys the script uses.\<close>

type_synonym session_state = "string \<rightharpoonup> string"

text \<open>An uploaded file: its name, its declared MIME type (\<open>.type\<close>) and what
  \<open>.read()\<close> returns.\<close>

record uploaded_file =
  upl_name :: string
  upl_type :: string
  upl_content :: string

text \<open>The widgets of the input column.\<close>

record form =
  day_number :: int
  project_title :: string
  tech1 :: string
  tech2 :: string
  tech3 :: string
  tech4 :: string
  custom_milestone :: string
  custom_skills :: string
  custom_next_phase :: string

subsection \<open>Characters of the messages outside ASCII\<close>

definition cross_mark :: string where "cross_mark = [CHR 0xE2, CHR 0x9D, CHR 0x8C]"
definition check_mark :: string where "check_mark = [CHR 0xE2, CHR 0x9C, CHR 0x85]"
definition robot :: string where "robot = [CHR 0xF0, CHR 0x9F, CHR 0xA4, CHR 0x96]"
definition bullet :: string where "bullet = [CHR 0xE2, CHR 0x80, CHR 0xA2]"
definition dart :: string where "dart = [CHR 0xF0, CHR 0x9F, CHR 0x8E, CHR 0xAF]"
definition wrench :: string where "wrench = [CHR 0xF0, CHR 0x9F, CHR 0x94, CHR 0xA7]"
definition high_voltage :: string where "high_voltage = [CHR 0xE2, CHR 0x9A, CHR 0xA1]"
definition bar_chart :: string where "bar_chart = [CHR 0xF0, CHR 0x9F, CHR 0x93, CHR 0x8A]"
definition rocket :: string where "rocket = [CHR 0xF0, CHR 0x9F, CHR 0x9A, CHR 0x80]"
definition light_bulb :: string where "light_bulb = [CHR 0xF0, CHR 0x9F, CHR 0x92, CHR 0xA1]"
definition outbox :: string where "outbox = [CHR 0xF0, CHR 0x9F, CHR 0x93, CHR 0xA4]"
definition bust :: string where "bust = [CHR 0xF0, CHR 0x9F, CHR 0x91, CHR 0xA4]"
definition up_arrow :: string where
  "up_arrow = [CHR 0xE2, CHR 0xAC, CHR 0x86, CHR 0xEF, CHR 0xB8, CHR 0x8F]"
definition warning_sign :: string where
  "warning_sign = [CHR 0xE2, CHR 0x9A, CHR 0xA0, CHR 0xEF, CHR 0xB8, CHR 0x8F]"
definition party_popper :: string where "party_popper = [CHR 0xF0, CHR 0x9F, CHR 0x8E, CHR 0x89]"

section \<open>LinkedIn API functions\<close>

subsection \<open>\<open>get_user_urn\<close>\<close>

definition userinfo_request :: "string \<Rightarrow> request" where
  "userinfo_request token =
     \<lparr>verb = GET,
      url = PStr ''https://api.linkedin.com/v2/userinfo'',
      headers = [(''Authorization'', ''Bearer '' @ py_strip token),
                 (''Content-Type'', ''application/json'')],
      payload = NoPayload\<rparr>"

definition token_expired_notice :: string where
  "token_expired_notice =
     cross_mark @ '' LinkedIn token expired or invalid. Please update your token.''"

text \<open>
  The \<open>try\<close> body gives the returned pair or the exception raised, together with the
  local \<open>response\<close> if the assignment to it was reached. The handler catches a
  \<open>RequestException\<close> only, and reads \<open>response.status_code\<close>: when \<open>requests.get\<close>
  itself raised, \<open>response\<close> is unbound there.
\<close>

definition get_user_urn :: "world \<Rightarrow> string \<Rightarrow> (pyexc + pyval \<times> pyval) \<times> event list" where
  "get_user_urn w token =
     (let req = userinfo_request token;
          (outcome, response) =
            (case http w req of
               Inl e \<Rightarrow> (Inl e, None)
             | Inr r \<Rightarrow>
                 (case raise_for_status r of
                    Some e \<Rightarrow> (Inl e, Some r)
                  | None \<Rightarrow>
                      (case json_result r of
                         Inl e \<Rightarrow> (Inl e, Some r)
                       | Inr userinfo_data \<Rightarrow>
                           (case py_get userinfo_data ''name'' (PStr ''N/A'') of
                              Inl e \<Rightarrow> (Inl e, Some r)
                            | Inr user_name \<Rightarrow>
                                (case py_get userinfo_data ''sub'' PNone of
                                   Inl e \<Rightarrow> (Inl e, Some r)
                                 | Inr user_id \<Rightarrow> (Inr (user_id, user_name), Some r))))))
      in case outcome of
           Inr res \<Rightarrow> (Inr res, [HttpCall req])
         | Inl e \<Rightarrow>
             if is_request_exception e then
               (case response of
                  None \<Rightarrow>
                    (Inl (unbound_local ''response''),
                     [HttpCall req, StError (''Error fetching user info: '' @ exc_str e)])
                | Some r \<Rightarrow>
                    (Inr (PNone, PNone),
                     [HttpCall req, StError (''Error fetching user info: '' @ exc_str e)] @
                     (if status_code r = 401 then [StError token_expired_notice] else [])))
             else (Inl e, [HttpCall req]))"

subsection \<open>\<open>upload_media_to_linkedin\<close>\<close>

definition media_category_of :: "string \<Rightarrow> string" where
  "media_category_of file_type = (if prefix ''image'' file_type then ''IMAGE'' else ''VIDEO'')"

definition register_request :: "world \<Rightarrow> string \<Rightarrow> pyval \<Rightarrow> string \<Rightarrow> request" where
  "register_request w token author_urn file_type =
     \<lparr>verb = POST,
      url = PStr ''https://api.linkedin.com/v2/assets?action=registerUpload'',
      headers = [(''Authorization'', ''Bearer '' @ token),
                 (''Content-Type'', ''application/json'')],
      payload = JsonPayload (PDict
        [(''registerUploadRequest'', PDict
           [(''recipes'', PList [PStr (''urn:li:digitalmediaRecipe:feedshare-'' @
                                       py_lower (media_category_of file_type))]),
            (''owner'', PStr (''urn:li:person:'' @ py_str w author_urn)),
            (''serviceRelationships'', PList [PDict
               [(''relationshipType'', PStr ''OWNER''),
                (''identifier'', PStr ''urn:li:userGeneratedContent'')]])])])\<rparr>"

definition upload_request :: "string \<Rightarrow> pyval \<Rightarrow> string \<Rightarrow> request" where
  "upload_request token upload_url file_content =
     \<lparr>verb = POST,
      url = upload_url,
      headers = [(''Authorization'', ''Bearer '' @ token)],
      payload = DataPayload file_content\<rparr>"

text \<open>Step 1 after the registration call: the upload URL and the asset identifier
  read from the decoded response, or the first exception.\<close>

definition read_register_response :: "response \<Rightarrow> pyexc + pyval \<times> pyval" where
  "read_register_response r =
     (case raise_for_status r of
        Some e \<Rightarrow> Inl e
      | None \<Rightarrow>
          (case json_result r of
             Inl e \<Rightarrow> Inl e
           | Inr register_response \<Rightarrow>
               (case py_getpath register_response [''value'', ''uploadMechanism''] of
                  Inl e \<Rightarrow> Inl e
                | Inr upload_mechanism \<Rightarrow>
                    (case py_getpath upload_mechanism
                            [''com.linkedin.digitalmedia.uploading.MediaUploadHttpRequest'',
                             ''uploadUrl''] of
                       Inl e \<Rightarrow> Inl e
                     | Inr upload_url \<Rightarrow>
                         (case py_getpath register_response [''value'', ''asset''] of
                            Inl e \<Rightarrow> Inl e
                          | Inr asset_id \<Rightarrow> Inr (upload_url, asset_id))))))"

text \<open>\<open>except Exception\<close> catches every exception of the body: the function reports
  it and returns \<open>None\<close>.\<close>

definition upload_failed :: "pyexc \<Rightarrow> event list \<Rightarrow> pyval \<times> event list" where
  "upload_failed e calls = (PNone, calls @ [StError (''Error uploading media: '' @ exc_str e)])"

definition upload_media_to_linkedin ::
  "world \<Rightarrow> string \<Rightarrow> pyval \<Rightarrow> string \<Rightarrow> string \<Rightarrow> pyval \<times> event list" where
  "upload_media_to_linkedin w token author_urn file_content file_type =
     (let reg = register_request w token author_urn file_type in
      case http w reg of
        Inl e \<Rightarrow> upload_failed e [HttpCall reg]
      | Inr r \<Rightarrow>
          (case read_register_response r of
             Inl e \<Rightarrow> upload_failed e [HttpCall reg]
           | Inr (upload_url, asset_id) \<Rightarrow>
               (let up = upload_request token upload_url file_content in
                case http w up of
                  Inl e \<Rightarrow> upload_failed e [HttpCall reg, HttpCall up]
                | Inr upload_response \<Rightarrow>
                    (case raise_for_status upload_response of
                       Some e \<Rightarrow> upload_failed e [HttpCall reg, HttpCall up]
                     | None \<Rightarrow> (asset_id, [HttpCall reg, HttpCall up])))))"

subsection \<open>\<open>create_linkedin_post_with_media\<close>\<close>

definition media_title_of :: "pyval \<Rightarrow> string" where
  "media_title_of media_type =
     (if media_type = PStr ''VIDEO'' then ''Project Video'' else ''Project Image'')"

text \<open>The dictionary under \<open>"com.linkedin.ugc.ShareContent"\<close>: the base entries, then
  the two assignments of the \<open>if media_urn:\<close> block.\<close>

definition share_content :: "string \<Rightarrow> pyval \<Rightarrow> pyval \<Rightarrow> (string \<times> pyval) list" where
  "share_content text media_urn media_type =
     (let base = [(''shareCommentary'', PDict [(''text'', PStr text)]),
                  (''shareMediaCategory'',
                     (if \<not> truthy media_urn then PStr ''NONE'' else media_type))]
      in if truthy media_urn then
           dict_set
             (dict_set base ''media''
                (PList [PDict
                   [(''status'', PStr ''READY''),
                    (''description'', PDict [(''text'', PStr ''Project showcase'')]),
                    (''media'', media_urn),
                    (''title'', PDict [(''text'', PStr (media_title_of media_type))])]]))
             ''shareMediaCategory'' media_type
         else base)"

definition post_data :: "world \<Rightarrow> pyval \<Rightarrow> string \<Rightarrow> pyval \<Rightarrow> pyval \<Rightarrow> pyval" where
  "post_data w author_urn text media_urn media_type =
     PDict
       [(''author'', PStr (''urn:li:person:'' @ py_str w author_urn)),
        (''lifecycleState'', PStr ''PUBLISHED''),
        (''specificContent'', PDict
           [(''com.linkedin.ugc.ShareContent'',
             PDict (share_content text media_urn media_type))]),
        (''visibility'', PDict
           [(''com.linkedin.ugc.MemberNetworkVisibility'', PStr ''PUBLIC'')])]"

definition post_request :: "world \<Rightarrow> pyval \<Rightarrow> string \<Rightarrow> string \<Rightarrow> pyval \<Rightarrow> pyval \<Rightarrow> request" where
  "post_request w author_urn text token media_urn media_type =
     \<lparr>verb = POST,
      url = PStr ''https://api.linkedin.com/v2/ugcPosts'',
      headers = [(''Authorization'', ''Bearer '' @ py_strip token),
                 (''Content-Type'', ''application/json''),
                 (''X-Restli-Protocol-Version'', ''2.0.0'')],
      payload = JsonPayload (post_data w author_urn text media_urn media_type)\<rparr>"

text \<open>The message of the \<open>except\<close> block, once \<open>response\<close> is bound.\<close>

definition post_error_msg :: "pyexc \<Rightarrow> response \<Rightarrow> string" where
  "post_error_msg e r =
     (if status_code r = 401 then ''LinkedIn token expired or invalid''
      else if status_code r = 403 then ''Insufficient permissions. Check your LinkedIn app scopes''
      else exc_str e)"

definition create_linkedin_post_with_media ::
  "world \<Rightarrow> pyval \<Rightarrow> string \<Rightarrow> string \<Rightarrow> pyval \<Rightarrow> pyval \<Rightarrow> (pyexc + bool \<times> pyval) \<times> event list" where
  "create_linkedin_post_with_media w author_urn text token media_urn media_type =
     (let req = post_request w author_urn text token media_urn media_type;
          (outcome, response) =
            (case http w req of
               Inl e \<Rightarrow> (Inl e, None)
             | Inr r \<Rightarrow>
                 (case raise_for_status r of
                    Some e \<Rightarrow> (Inl e, Some r)
                  | None \<Rightarrow>
                      (case json_result r of
                         Inl e \<Rightarrow> (Inl e, Some r)
                       | Inr v \<Rightarrow> (Inr v, Some r))))
      in case outcome of
           Inr v \<Rightarrow> (Inr (True, v), [HttpCall req])
         | Inl e \<Rightarrow>
             if is_request_exception e then
               (case response of
                  None \<Rightarrow> (Inl (unbound_local ''response''), [HttpCall req])
                | Some r \<Rightarrow> (Inr (False, PStr (post_error_msg e r)), [HttpCall req]))
             else (Inl e, [HttpCall req]))"

section \<open>The page\<close>

subsection \<open>The "Generate LinkedIn Post" button\<close>

definition technologies :: "form \<Rightarrow> string list" where
  "technologies f = filter (\<lambda>tech. py_strip tech \<noteq> []) [tech1 f, tech2 f, tech3 f, tech4 f]"

definition tech_string :: "form \<Rightarrow> string" where
  "tech_string f = py_join ('' '' @ bullet @ '' '') (technologies f)"

definition prompt :: "form \<Rightarrow> string" where
  "prompt f =
     ''\<newline>'' @
     ''Generate a professional LinkedIn post for a  student at NIAT following this exact format and also don't use '' @
     [CHR 0x22] @
     ''**'' @
     [CHR 0x22] @
     '' in the post:\<newline>'' @
     ''\<newline>'' @
     ''Day '' @
     str_int (day_number f) @
     '' |  at NIAT\<newline>'' @
     dart @
     '' Milestone Achieved: [Generate an appropriate milestone based on the project]\<newline>'' @
     wrench @
     '' Project Delivered: '' @
     project_title f @
     ''\<newline>'' @
     '' [Generate 3 key features/components of this project]\<newline>'' @
     '' [Feature 2]  \<newline>'' @
     '' [Feature 3]\<newline>'' @
     high_voltage @
     '' Tech Stack: '' @
     tech_string f @
     ''\<newline>'' @
     bar_chart @
     '' Skills Gained: [Generate 4 relevant skills based on the technologies and project]\<newline>'' @
     rocket @
     '' Next Phase: [Generate next logical step in development journey]\<newline>'' @
     ''\<newline>'' @
     ''Building industry-ready developers through hands-on project experience.\<newline>'' @
     ''\<newline>'' @
     ''#NIAT #ReactJS #FrontendDevelopment #WebDev #TechEducation #StudentSuccess\<newline>'' @
     ''\<newline>'' @
     ''Project Details:\<newline>'' @
     ''- Day: '' @
     str_int (day_number f) @
     ''\<newline>'' @
     ''- Project: '' @
     project_title f @
     ''\<newline>'' @
     ''- Technologies: '' @
     tech_string f @
     ''\<newline>'' @
     (if custom_milestone f \<noteq> [] then ''- Custom Milestone: '' @ custom_milestone f else []) @
     ''\<newline>'' @
     (if custom_skills f \<noteq> [] then ''- Additional Skills: '' @ custom_skills f else []) @
     ''\<newline>'' @
     (if custom_next_phase f \<noteq> [] then ''- Next Phase: '' @ custom_next_phase f else []) @
     ''\<newline>'' @
     ''\<newline>'' @
     ''Make it engaging, professional, and inspiring. Focus on growth, learning, and practical experience.\<newline>''"

definition fill_in_notice :: string where
  "fill_in_notice =
     cross_mark @ '' Please fill in at least the project title and first technology!''"

text \<open>The handler returns the session state and what it showed and called. Every
  exception of the \<open>try\<close> block is caught and reported.\<close>

definition generate_post :: "world \<Rightarrow> form \<Rightarrow> session_state \<Rightarrow> session_state \<times> event list" where
  "generate_post w f ss =
     (if project_title f = [] \<or> tech1 f = [] then (ss, [StError fill_in_notice])
      else
        (let spin = StSpinner (robot @ '' Generating post with Gemini AI...'');
             call = GenerateContent ''gemini-1.5-flash'' (prompt f)
         in case generate_content w ''gemini-1.5-flash'' (prompt f) of
              Inr generated_post \<Rightarrow>
                (ss(''generated_post'' \<mapsto> generated_post),
                 [spin, call, StSuccess (check_mark @ '' Post generated successfully!'')])
            | Inl e \<Rightarrow>
                (ss,
                 [spin, call,
                  StError (cross_mark @ '' Error generating post: '' @ exc_str e),
                  StInfo (light_bulb @ '' Try using a different model or check your API quota'')])))"

subsection \<open>The draft display\<close>

text \<open>The block under \<open>if 'generated_post' in st.session_state\<close>: the text area
  keeps its value in the session state under its key \<open>editable_post\<close>.\<close>

definition show_generated_post ::
  "world \<Rightarrow> string \<Rightarrow> uploaded_file option \<Rightarrow> session_state \<Rightarrow> session_state \<times> event list" where
  "show_generated_post w media_type uploaded_file ss =
     (case ss ''generated_post'' of
        None \<Rightarrow> (ss, [])
      | Some g \<Rightarrow>
          (ss(''editable_post'' \<mapsto> text_area w (ss ''editable_post'') g),
           [StWrite ''**Generated Post:**''] @
           (case uploaded_file of
              None \<Rightarrow> []
            | Some file \<Rightarrow>
                [StWrite ''**Media Preview:**''] @
                (if media_type = ''Image'' then [StImage ''Uploaded Image'']
                 else if media_type = ''Video'' then [StVideo]
                 else []))))"

subsection \<open>The "Publish Post" button\<close>

definition generate_first_notice :: string where
  "generate_first_notice = cross_mark @ '' Please generate a post first!''"

definition upload_failed_notice :: string where
  "upload_failed_notice = warning_sign @ '' Media upload failed, posting without media...''"

text \<open>The block \<open>if uploaded_file is not None\<close>: the asset identifier and what was
  shown and called.\<close>

definition upload_step ::
  "world \<Rightarrow> string \<Rightarrow> pyval \<Rightarrow> uploaded_file option \<Rightarrow> pyval \<times> event list" where
  "upload_step w token user_id uploaded_file =
     (case uploaded_file of
        None \<Rightarrow> (PNone, [])
      | Some file \<Rightarrow>
          (let (media_urn, t) =
                 upload_media_to_linkedin w token user_id (upl_content file) (upl_type file)
           in (media_urn,
               [StInfo (up_arrow @ '' Uploading media...'')] @ t @
               [if truthy media_urn
                then StSuccess (check_mark @ '' Media uploaded successfully!'')
                else StWarning upload_failed_notice])))"

text \<open>The media category passed to the post-creation call.\<close>

definition linkedin_media_type_of :: "uploaded_file option \<Rightarrow> pyval \<Rightarrow> pyval" where
  "linkedin_media_type_of uploaded_file media_urn =
     (case uploaded_file of
        None \<Rightarrow> PNone
      | Some file \<Rightarrow>
          if truthy media_urn then
            (if prefix ''image'' (upl_type file) then PStr ''IMAGE''
             else if prefix ''video'' (upl_type file) then PStr ''VIDEO''
             else PNone)
          else PNone)"

text \<open>What the handler shows after the post-creation call returned.\<close>

definition publish_outcome :: "world \<Rightarrow> bool \<Rightarrow> pyval \<Rightarrow> event list" where
  "publish_outcome w success result =
     (if success then
        [StSuccess (party_popper @ '' Post published successfully to LinkedIn!''),
         StBalloons,
         StExpander (bar_chart @ '' Response Details''),
         StJson result]
      else [StError (cross_mark @ '' Failed to publish post: '' @ py_str w result)])"

text \<open>
  The handler returns the exception that escapes it, if any, and what it showed and
  called. Reading \<open>st.session_state.editable_post\<close> raises \<open>AttributeError\<close> when the
  entry is missing (the text of that exception is abbreviated to the attribute name).
\<close>

definition publish_post ::
  "world \<Rightarrow> string \<Rightarrow> uploaded_file option \<Rightarrow> session_state \<Rightarrow> pyexc option \<times> event list" where
  "publish_post w token uploaded_file ss =
     (if ss ''generated_post'' = None then (None, [StError generate_first_notice])
      else
        (let spin = [StSpinner (outbox @ '' Publishing to LinkedIn...'')] in
         case get_user_urn w token of
           (Inl e, t1) \<Rightarrow> (Some e, spin @ t1)
         | (Inr (user_id, user_name), t1) \<Rightarrow>
             if truthy user_id then
               (let t2 = [StInfo (bust @ '' Posting as: '' @ py_str w user_name)];
                    (media_urn, t3) = upload_step w token user_id uploaded_file;
                    linkedin_media_type = linkedin_media_type_of uploaded_file media_urn
                in case ss ''editable_post'' of
                     None \<Rightarrow> (Some (PyExc AttributeError ''editable_post''), spin @ t1 @ t2 @ t3)
                   | Some text \<Rightarrow>
                       (case create_linkedin_post_with_media w user_id text token media_urn
                               linkedin_media_type of
                          (Inl e, t4) \<Rightarrow> (Some e, spin @ t1 @ t2 @ t3 @ t4)
                        | (Inr (success, result), t4) \<Rightarrow>
                            (None, spin @ t1 @ t2 @ t3 @ t4 @ publish_outcome w success result)))
             else (None, spin @ t1)))"

subsection \<open>The "Clear and Start Over" button\<close>

text \<open>The loop deletes each listed key that is present; the page then reruns.\<close>

definition clear_and_start_over :: "session_state \<Rightarrow> session_state" where
  "clear_and_start_over ss =
     fold (\<lambda>key s. if s key \<noteq> None then s(key := None) else s)
       [''generated_post'', ''editable_post''] ss"

section \<open>Reading a request\<close>

text \<open>The HTTP calls of a trace, in order.\<close>

fun http_calls :: "event list \<Rightarrow> request list" where
  "http_calls [] = []"
| "http_calls (HttpCall r # es) = r # http_calls es"
| "http_calls (e # es) = http_calls es"

text \<open>The calls made to the text-generation service.\<close>

fun generation_calls :: "event list \<Rightarrow> string list" where
  "generation_calls [] = []"
| "generation_calls (GenerateContent m p # es) = p # generation_calls es"
| "generation_calls (e # es) = generation_calls es"


section \<open>Example inputs\<close>

text \<open>A response with a JSON body.\<close>

definition json_record :: "int \<Rightarrow> string \<Rightarrow> string \<Rightarrow> pyval \<Rightarrow> response" where
  "json_record status phrase u body =
     \<lparr>status_code = status, reason = phrase, resp_url = u, json_result = Inr body\<rparr>"

definition json_response :: "int \<Rightarrow> string \<Rightarrow> string \<Rightarrow> pyval \<Rightarrow> pyexc + response" where
  "json_response status phrase u body = Inr (json_record status phrase u body)"

text \<open>A world that answers by endpoint: the identity endpoint, the registration
  endpoint, the post-creation endpoint, and every other URL (the upload URL).\<close>

definition example_world ::
  "(pyexc + response) \<Rightarrow> (pyexc + response) \<Rightarrow> (pyexc + response) \<Rightarrow> (pyexc + response) \<Rightarrow> world" where
  "example_world identity registration upload creation =
     \<lparr>http = (\<lambda>req.
        if url req = PStr ''https://api.linkedin.com/v2/userinfo'' then identity
        else if url req = PStr ''https://api.linkedin.com/v2/assets?action=registerUpload''
        then registration
        else if url req = PStr ''https://api.linkedin.com/v2/ugcPosts'' then creation
        else upload),
      generate_content = (\<lambda>model_name p. Inr ''Day 5 at NIAT''),
      text_area = (\<lambda>current initial. case current of None \<Rightarrow> initial | Some t \<Rightarrow> t),
      py_repr = (\<lambda>v. ''[...]'')\<rparr>"

definition identity_ok :: "pyexc + response" where
  "identity_ok =
     json_response 200 ''OK'' ''https://api.linkedin.com/v2/userinfo''
       (PDict [(''name'', PStr ''Ada''), (''sub'', PStr ''abc123'')])"

definition registration_ok :: "pyexc + response" where
  "registration_ok =
     json_response 200 ''OK'' ''https://api.linkedin.com/v2/assets?action=registerUpload''
       (PDict [(''value'', PDict
          [(''uploadMechanism'', PDict
              [(''com.linkedin.digitalmedia.uploading.MediaUploadHttpRequest'',
                PDict [(''uploadUrl'', PStr ''https://upload.example/1'')])]),
           (''asset'', PStr ''urn:li:digitalmediaAsset:1'')])])"

definition upload_ok :: "pyexc + response" where
  "upload_ok = json_response 201 ''Created'' ''https://upload.example/1'' PNone"

definition creation_ok :: "pyexc + response" where
  "creation_ok =
     json_response 201 ''Created'' ''https://api.linkedin.com/v2/ugcPosts''
       (PDict [(''id'', PStr ''urn:li:share:1'')])"

text \<open>An error response; its body does not decode.\<close>

definition error_record :: "int \<Rightarrow> string \<Rightarrow> string \<Rightarrow> response" where
  "error_record status phrase u =
     \<lparr>status_code = status, reason = phrase, resp_url = u,
      json_result = Inl (PyExc RequestException ''Expecting value: line 1 column 1 (char 0)'')\<rparr>"

definition error_response :: "int \<Rightarrow> string \<Rightarrow> string \<Rightarrow> pyexc + response" where
  "error_response status phrase u = Inr (error_record status phrase u)"

definition connection_error :: "pyexc + response" where
  "connection_error = Inl (PyExc RequestException ''Connection aborted.'')"

definition example_session :: session_state where
  "example_session = [''generated_post'' \<mapsto> ''Day 5 at NIAT'', ''editable_post'' \<mapsto> ''Day 5 at NIAT, edited'']"

definition png_file :: uploaded_file where
  "png_file = \<lparr>upl_name = ''shot.png'', upl_type = ''image/png'', upl_content = ''PNG''\<rparr>"



definition todo_form :: form where
  "todo_form =
     \<lparr>day_number = 5, project_title = ''Todo App'',
      tech1 = ''React'', tech2 = ''Node.js'', tech3 = [], tech4 = [],
      custom_milestone = [], custom_skills = [], custom_next_phase = []\<rparr>"

text \<open>Worlds for the scenarios of the publishing flow.\<close>

definition world_ok :: world where
  "world_ok = example_world identity_ok registration_ok upload_ok creation_ok"


definition world_identity_401 :: world where
  "world_identity_401 =
     example_world
       (error_response 401 ''Unauthorized'' ''https://api.linkedin.com/v2/userinfo'')
       registration_ok upload_ok creation_ok"

definition world_identity_500 :: world where
  "world_identity_500 =
     example_world
       (error_response 500 ''Internal Server Error'' ''https://api.linkedin.com/v2/userinfo'')
       registration_ok upload_ok creation_ok"

definition world_identity_300 :: world where
  "world_identity_300 =
     example_world
       (json_response 300 ''Multiple Choices'' ''https://api.linkedin.com/v2/userinfo''
          (PDict [(''name'', PStr ''Ada''), (''sub'', PStr ''abc123'')]))
       registration_ok upload_ok creation_ok"

definition world_creation_401 :: world where
  "world_creation_401 =
     example_world identity_ok registration_ok upload_ok
       (error_response 401 ''Unauthorized'' ''https://api.linkedin.com/v2/ugcPosts'')"

definition world_creation_300 :: world where
  "world_creation_300 =
     example_world identity_ok registration_ok upload_ok
       (json_response 300 ''Multiple Choices'' ''https://api.linkedin.com/v2/ugcPosts''
          (PDict [(''id'', PStr ''urn:li:share:1'')]))"

definition world_creation_undecodable :: world where
  "world_creation_undecodable =
     example_world identity_ok registration_ok upload_ok
       (error_response 200 ''OK'' ''https://api.linkedin.com/v2/ugcPosts'')"

definition world_creation_unreachable :: world where
  "world_creation_unreachable =
     example_world identity_ok registration_ok upload_ok connection_error"

text \<open>Forms with a missing title and with technology fields that hold blanks only.\<close>

definition untitled_form :: form where
  "untitled_form =
     \<lparr>day_number = 5, project_title = [],
      tech1 = ''React'', tech2 = ''Node.js'', tech3 = [], tech4 = [],
      custom_milestone = [], custom_skills = [], custom_next_phase = []\<rparr>"

definition blank_tech2_form :: form where
  "blank_tech2_form =
     \<lparr>day_number = 5, project_title = ''Todo App'',
      tech1 = ''React'', tech2 = ''   '', tech3 = [], tech4 = [],
      custom_milestone = [], custom_skills = [], custom_next_phase = []\<rparr>"

definition blank_tech1_form :: form where
  "blank_tech1_form =
     \<lparr>day_number = 5, project_title = ''Todo App'',
      tech1 = '' '', tech2 = [], tech3 = [], tech4 = [],
      custom_milestone = [], custom_skills = [], custom_next_phase = []\<rparr>"

section \<open>Auxiliary lemmas\<close>

subsection \<open>Traces\<close>


subsection \<open>HTTP status\<close>

lemma http_error_msg_nonempty:
  "400 \<le> status_code r \<Longrightarrow> status_code r < 600 \<Longrightarrow> http_error_msg r \<noteq> []"
  by (simp add: http_error_msg_def)

lemma raise_for_status_error:
  "400 \<le> status_code r \<Longrightarrow> status_code r < 600 \<Longrightarrow>
   raise_for_status r = Some (PyExc HTTPError (http_error_msg r))"
  by (simp add: raise_for_status_def http_error_msg_nonempty)

lemma raise_for_status_none:
  "\<not> (400 \<le> status_code r \<and> status_code r < 600) \<Longrightarrow> raise_for_status r = None"
  by (auto simp add: raise_for_status_def http_error_msg_def)

subsection \<open>Identity resolution\<close>

lemma get_user_urn_error_status:
  assumes "http w (userinfo_request token) = Inr r"
    and "400 \<le> status_code r" and "status_code r < 600"
  shows "get_user_urn w token =
     (Inr (PNone, PNone),
      [HttpCall (userinfo_request token),
       StError (''Error fetching user info: '' @ http_error_msg r)] @
      (if status_code r = 401 then [StError token_expired_notice] else []))"
  using assms by (simp add: get_user_urn_def raise_for_status_error)

lemma get_user_urn_calls:
  "http_calls (snd (get_user_urn w token)) = [userinfo_request token]"
  by (auto simp add: get_user_urn_def Let_def split: sum.splits option.splits prod.splits)

text \<open>When \<open>requests.get\<close> itself raises a \<open>RequestException\<close>, the handler fails on the
  unbound \<open>response\<close> and the exception leaves the function.\<close>

lemma get_user_urn_no_response:
  assumes "http w (userinfo_request token) = Inl e" and "is_request_exception e"
  shows "fst (get_user_urn w token) = Inl (unbound_local ''response'')"
  using assms by (simp add: get_user_urn_def)

subsection \<open>Post creation\<close>




lemma create_error_status:
  assumes "http w (post_request w a text token m mt) = Inr r"
    and "400 \<le> status_code r" and "status_code r < 600"
  shows "create_linkedin_post_with_media w a text token m mt =
     (Inr (False, PStr (post_error_msg (PyExc HTTPError (http_error_msg r)) r)),
      [HttpCall (post_request w a text token m mt)])"
  using assms by (simp add: create_linkedin_post_with_media_def raise_for_status_error)

lemma create_success:
  assumes "http w (post_request w a text token m mt) = Inr r"
    and "\<not> (400 \<le> status_code r \<and> status_code r < 600)"
    and "json_result r = Inr v"
  shows "create_linkedin_post_with_media w a text token m mt =
     (Inr (True, v), [HttpCall (post_request w a text token m mt)])"
  using assms by (simp add: create_linkedin_post_with_media_def raise_for_status_none)


lemma create_no_response:
  assumes "http w (post_request w a text token m mt) = Inl e" and "is_request_exception e"
  shows "fst (create_linkedin_post_with_media w a text token m mt) =
     Inl (unbound_local ''response'')"
  using assms by (simp add: create_linkedin_post_with_media_def)

subsection \<open>Media upload\<close>

text \<open>Each failure of the registration or of the binary upload makes the helper
  return \<open>None\<close>.\<close>

lemma upload_register_raises:
  "http w (register_request w token a ft) = Inl e \<Longrightarrow>
   fst (upload_media_to_linkedin w token a fc ft) = PNone"
  by (simp add: upload_media_to_linkedin_def upload_failed_def)

lemma upload_register_error_status:
  "http w (register_request w token a ft) = Inr r \<Longrightarrow> 400 \<le> status_code r \<Longrightarrow>
   status_code r < 600 \<Longrightarrow> fst (upload_media_to_linkedin w token a fc ft) = PNone"
  by (simp add: upload_media_to_linkedin_def upload_failed_def read_register_response_def
      raise_for_status_error)

lemma upload_register_unreadable:
  "http w (register_request w token a ft) = Inr r \<Longrightarrow> read_register_response r = Inl e \<Longrightarrow>
   fst (upload_media_to_linkedin w token a fc ft) = PNone"
  by (simp add: upload_media_to_linkedin_def upload_failed_def)

lemma upload_binary_raises:
  assumes "http w (register_request w token a ft) = Inr r"
    and "read_register_response r = Inr (upload_url, asset_id)"
    and "http w (upload_request token upload_url fc) = Inl e"
  shows "fst (upload_media_to_linkedin w token a fc ft) = PNone"
  using assms by (simp add: upload_media_to_linkedin_def upload_failed_def)

lemma upload_binary_error_status:
  assumes "http w (register_request w token a ft) = Inr r"
    and "read_register_response r = Inr (upload_url, asset_id)"
    and "http w (upload_request token upload_url fc) = Inr ur"
    and "400 \<le> status_code ur" and "status_code ur < 600"
  shows "fst (upload_media_to_linkedin w token a fc ft) = PNone"
  using assms
  by (simp add: upload_media_to_linkedin_def upload_failed_def raise_for_status_error)




subsection \<open>The publish handler\<close>


text \<open>Without a user id the handler stops after the identity call, whether
  \<open>get_user_urn\<close> returned no id or an exception left it.\<close>

lemma publish_post_without_identity:
  assumes "ss ''generated_post'' = Some g"
    and "\<And>uid n t. get_user_urn w token = (Inr (uid, n), t) \<Longrightarrow> \<not> truthy uid"
  shows "http_calls (snd (publish_post w token uploaded_file ss)) = [userinfo_request token]"
proof -
  obtain res t1 where g: "get_user_urn w token = (res, t1)"
    by (cases "get_user_urn w token")
  have calls: "http_calls t1 = [userinfo_request token]"
    using get_user_urn_calls[of w token] g by simp
  show ?thesis
  proof (cases res)
    case (Inl e)
    with assms(1) g calls show ?thesis
      by (simp add: publish_post_def)
  next
    case (Inr p)
    obtain uid n where p: "p = (uid, n)" by (cases p)
    with Inr g assms(2) have "\<not> truthy uid" by simp
    with Inr p assms(1) g calls show ?thesis
      by (simp add: publish_post_def)
  qed
qed

text \<open>The text area of the draft display stores the text the publish handler reads.\<close>

lemma show_generated_post_editable:
  "ss ''generated_post'' = Some g \<Longrightarrow>
   fst (show_generated_post w media_type uploaded_file ss) ''editable_post'' =
     Some (text_area w (ss ''editable_post'') g) \<and>
   fst (show_generated_post w media_type uploaded_file ss) ''generated_post'' = Some g"
  by (simp add: show_generated_post_def)

subsection \<open>The prompt\<close>

lemma sublist_py_join: "x \<in> set xs \<Longrightarrow> sublist x (py_join sep xs)"
proof (induction sep xs rule: py_join.induct)
  case (1 sep)
  then show ?case by simp
next
  case (2 sep y)
  then show ?case by simp
next
  case (3 sep y z zs)
  show ?case
  proof (cases "x = y")
    case True
    then show ?thesis by simp
  next
    case False
    with 3 have "sublist x (py_join sep (z # zs))" by simp
    moreover have "sublist (py_join sep (z # zs)) ((y @ sep) @ py_join sep (z # zs))"
      by (rule sublist_append_leftI)
    ultimately have "sublist x ((y @ sep) @ py_join sep (z # zs))"
      by (rule sublist_order.order.trans)
    then show ?thesis by simp
  qed
qed

lemma sublist_skip: "sublist t ys \<Longrightarrow> sublist t (xs @ ys)"
  using sublist_append_leftI sublist_order.order.trans by blast

lemma day_in_prompt: "sublist (str_int (day_number f)) (prompt f)"
  unfolding prompt_def by (rule sublist_append_rightI | rule sublist_skip)+

lemma title_in_prompt: "sublist (project_title f) (prompt f)"
  unfolding prompt_def by (rule sublist_append_rightI | rule sublist_skip)+

lemma tech_string_in_prompt: "sublist (tech_string f) (prompt f)"
  unfolding prompt_def by (rule sublist_append_rightI | rule sublist_skip)+

lemma tech_stack_line_in_prompt:
  "sublist (high_voltage @ '' Tech Stack: '' @ tech_string f @ ''\<newline>'') (prompt f)"
  unfolding prompt_def
  by ((rule prefix_imp_sublist, (simp; fail)) | rule sublist_skip)+

lemma technology_in_prompt:
  assumes "tech \<in> set [tech1 f, tech2 f, tech3 f, tech4 f]" and "py_strip tech \<noteq> []"
  shows "sublist tech (prompt f)"
proof -
  from assms have "tech \<in> set (technologies f)"
    unfolding technologies_def set_filter by blast
  then have "sublist tech (tech_string f)"
    unfolding tech_string_def by (rule sublist_py_join)
  then show ?thesis
    using tech_string_in_prompt sublist_order.order.trans by blast
qed

lemma generate_post_calls:
  "project_title f \<noteq> [] \<Longrightarrow> tech1 f \<noteq> [] \<Longrightarrow>
   generation_calls (snd (generate_post w f ss)) = [prompt f]"
  by (simp add: generate_post_def Let_def split: sum.splits)

section \<open>Claims\<close>

subsection \<open>Degrading to a text-only post\<close>



subsection \<open>Posting with media\<close>





subsection \<open>Error statuses\<close>




text \<open>
  C4, as stated, covers every non-2xx identity response and promises an
  authentication-error result. A 500 aborts the publish attempt without the token
  message; a 300 that carries the identity does not abort it, and the post-creation
  call is made.
\<close>

theorem identity_failure_counterexample:
  "StError token_expired_notice \<notin>
     set (snd (publish_post world_identity_500 ''tok'' None example_session)) \<and>
   http_calls (snd (publish_post world_identity_300 ''tok'' None example_session)) =
     [userinfo_request ''tok'',
      post_request world_identity_300 (PStr ''abc123'') ''Day 5 at NIAT, edited'' ''tok''
        PNone PNone]"
  by code_simp

text \<open>
  C4, amended. When the identity endpoint answers with a status from 400 to 599, the
  publish attempt stops after that one call: neither the upload calls nor the
  post-creation call is made, the handler shows \<open>Error fetching user info: ...\<close>, and
  it shows the token message in addition exactly when the status is 401.
\<close>

theorem identity_error_status_aborts_publish:
  assumes "ss ''generated_post'' = Some g"
    and "http w (userinfo_request token) = Inr r"
    and "400 \<le> status_code r" and "status_code r < 600"
  shows "publish_post w token uploaded_file ss =
           (None,
            [StSpinner (outbox @ '' Publishing to LinkedIn...''),
             HttpCall (userinfo_request token),
             StError (''Error fetching user info: '' @ http_error_msg r)] @
            (if status_code r = 401 then [StError token_expired_notice] else [])) \<and>
         http_calls (snd (publish_post w token uploaded_file ss)) = [userinfo_request token]"
  using assms get_user_urn_error_status[OF assms(2-4)]
  by (simp add: publish_post_def)

theorem identity_error_status_aborts_publish_witness:
  "example_session ''generated_post'' = Some ''Day 5 at NIAT'' \<and>
   http world_identity_401 (userinfo_request ''tok'') =
     Inr (error_record 401 ''Unauthorized'' ''https://api.linkedin.com/v2/userinfo'') \<and>
   400 \<le> status_code (error_record 401 ''Unauthorized'' ''https://api.linkedin.com/v2/userinfo'') \<and>
   status_code (error_record 401 ''Unauthorized'' ''https://api.linkedin.com/v2/userinfo'') < 600 \<and>
   publish_post world_identity_401 ''tok'' (Some png_file) example_session =
     (None,
      [StSpinner (outbox @ '' Publishing to LinkedIn...''),
       HttpCall (userinfo_request ''tok''),
       StError (''Error fetching user info: '' @
         http_error_msg (error_record 401 ''Unauthorized'' ''https://api.linkedin.com/v2/userinfo'')),
       StError token_expired_notice]) \<and>
   http_calls (snd (publish_post world_identity_401 ''tok'' (Some png_file) example_session)) =
     [userinfo_request ''tok'']"
proof -
  have h1: "example_session ''generated_post'' = Some ''Day 5 at NIAT''"
    by (simp add: example_session_def)
  have h2: "http world_identity_401 (userinfo_request ''tok'') =
      Inr (error_record 401 ''Unauthorized'' ''https://api.linkedin.com/v2/userinfo'')"
    by (simp add: world_identity_401_def example_world_def userinfo_request_def
        error_response_def)
  have s: "status_code (error_record 401 ''Unauthorized''
      ''https://api.linkedin.com/v2/userinfo'') = 401"
    by (simp add: error_record_def)
  have h3: "400 \<le> status_code (error_record 401 ''Unauthorized''
      ''https://api.linkedin.com/v2/userinfo'')"
    by (simp add: s)
  have h4: "status_code (error_record 401 ''Unauthorized''
      ''https://api.linkedin.com/v2/userinfo'') < 600"
    by (simp add: s)
  show ?thesis
    using identity_error_status_aborts_publish[where ss = example_session
        and w = world_identity_401 and uploaded_file = "Some png_file", OF h1 h2 h3 h4]
      h1 h2 h3 h4 s
    by simp
qed

text \<open>
  C7, as stated, fails in three places. A 300 response with a JSON body is not a 2xx
  response and yields success. A 200 response whose body does not decode yields a
  failure. And when \<open>requests.post\<close> raises before any response exists, the handler
  reads the unbound \<open>response\<close>, so the failure leaves the function as an
  \<open>UnboundLocalError\<close> instead of being returned.
\<close>

theorem post_creation_counterexample:
  "create_linkedin_post_with_media world_creation_300 (PStr ''abc123'') ''Day 5'' ''tok''
       PNone PNone =
     (Inr (True, PDict [(''id'', PStr ''urn:li:share:1'')]),
      [HttpCall (post_request world_creation_300 (PStr ''abc123'') ''Day 5'' ''tok''
         PNone PNone)]) \<and>
   fst (create_linkedin_post_with_media world_creation_undecodable (PStr ''abc123'') ''Day 5''
          ''tok'' PNone PNone) =
     Inr (False, PStr ''Expecting value: line 1 column 1 (char 0)'') \<and>
   fst (create_linkedin_post_with_media world_creation_unreachable (PStr ''abc123'') ''Day 5''
          ''tok'' PNone PNone) =
     Inl (unbound_local ''response'')"
  by code_simp

text \<open>
  C7, amended. For a post-creation call that receives a response: a status from 400 to
  599 yields a failure result, returned as a value, whose message is
  \<open>LinkedIn token expired or invalid\<close> for 401, the insufficient-permissions message for
  403, and otherwise the text of the HTTP error; any other status, with a body that
  decodes as JSON, yields a success result carrying the decoded body.
\<close>

theorem post_creation_result:
  assumes "http w (post_request w author_urn text token media_urn media_type) = Inr r"
  shows "(400 \<le> status_code r \<and> status_code r < 600 \<longrightarrow>
            create_linkedin_post_with_media w author_urn text token media_urn media_type =
              (Inr (False,
                 PStr (if status_code r = 401 then ''LinkedIn token expired or invalid''
                       else if status_code r = 403
                       then ''Insufficient permissions. Check your LinkedIn app scopes''
                       else http_error_msg r)),
               [HttpCall (post_request w author_urn text token media_urn media_type)])) \<and>
         (\<not> (400 \<le> status_code r \<and> status_code r < 600) \<and> json_result r = Inr v \<longrightarrow>
            create_linkedin_post_with_media w author_urn text token media_urn media_type =
              (Inr (True, v),
               [HttpCall (post_request w author_urn text token media_urn media_type)]))"
proof (intro conjI impI)
  assume "400 \<le> status_code r \<and> status_code r < 600"
  then show "create_linkedin_post_with_media w author_urn text token media_urn media_type =
              (Inr (False,
                 PStr (if status_code r = 401 then ''LinkedIn token expired or invalid''
                       else if status_code r = 403
                       then ''Insufficient permissions. Check your LinkedIn app scopes''
                       else http_error_msg r)),
               [HttpCall (post_request w author_urn text token media_urn media_type)])"
    using create_error_status[OF assms] by (simp add: post_error_msg_def)
next
  assume "\<not> (400 \<le> status_code r \<and> status_code r < 600) \<and> json_result r = Inr v"
  then show "create_linkedin_post_with_media w author_urn text token media_urn media_type =
              (Inr (True, v),
               [HttpCall (post_request w author_urn text token media_urn media_type)])"
    using create_success[OF assms] by simp
qed

theorem post_creation_result_witness:
  "http world_creation_401
       (post_request world_creation_401 (PStr ''abc123'') ''Day 5'' ''tok'' PNone PNone) =
     Inr (error_record 401 ''Unauthorized'' ''https://api.linkedin.com/v2/ugcPosts'') \<and>
   create_linkedin_post_with_media world_creation_401 (PStr ''abc123'') ''Day 5'' ''tok''
       PNone PNone =
     (Inr (False, PStr ''LinkedIn token expired or invalid''),
      [HttpCall (post_request world_creation_401 (PStr ''abc123'') ''Day 5'' ''tok''
         PNone PNone)]) \<and>
   http world_ok (post_request world_ok (PStr ''abc123'') ''Day 5'' ''tok'' PNone PNone) =
     Inr (json_record 201 ''Created'' ''https://api.linkedin.com/v2/ugcPosts''
            (PDict [(''id'', PStr ''urn:li:share:1'')])) \<and>
   create_linkedin_post_with_media world_ok (PStr ''abc123'') ''Day 5'' ''tok'' PNone PNone =
     (Inr (True, PDict [(''id'', PStr ''urn:li:share:1'')]),
      [HttpCall (post_request world_ok (PStr ''abc123'') ''Day 5'' ''tok'' PNone PNone)])"
proof -
  have a: "http world_creation_401
       (post_request world_creation_401 (PStr ''abc123'') ''Day 5'' ''tok'' PNone PNone) =
     Inr (error_record 401 ''Unauthorized'' ''https://api.linkedin.com/v2/ugcPosts'')"
    by (simp add: world_creation_401_def example_world_def post_request_def
        error_response_def)
  have b: "http world_ok (post_request world_ok (PStr ''abc123'') ''Day 5'' ''tok'' PNone PNone) =
     Inr (json_record 201 ''Created'' ''https://api.linkedin.com/v2/ugcPosts''
            (PDict [(''id'', PStr ''urn:li:share:1'')]))"
    by (simp add: world_ok_def example_world_def post_request_def creation_ok_def
        json_response_def)
  show ?thesis
    using post_creation_result[OF a] post_creation_result[OF b] a b
    by (simp add: error_record_def json_record_def)
qed

subsection \<open>Generating the draft\<close>

text \<open>
  C5. With an empty project title or an empty first technology the generate action is
  rejected: the page shows the error asking for both, the text-generation service is
  not called, and the session state is unchanged.
\<close>

theorem generate_rejected_without_title_or_technology:
  assumes "project_title f = [] \<or> tech1 f = []"
  shows "generate_post w f ss = (ss, [StError fill_in_notice]) \<and>
         generation_calls (snd (generate_post w f ss)) = []"
  using assms by (simp add: generate_post_def)

theorem generate_rejected_without_title_or_technology_witness:
  "(project_title untitled_form = [] \<or> tech1 untitled_form = []) \<and>
   generate_post world_ok untitled_form example_session =
     (example_session, [StError fill_in_notice]) \<and>
   generation_calls (snd (generate_post world_ok untitled_form example_session)) = []"
proof -
  have h: "project_title untitled_form = [] \<or> tech1 untitled_form = []"
    by (simp add: untitled_form_def)
  show ?thesis
    using generate_rejected_without_title_or_technology[OF h, of world_ok example_session] h
    by blast
qed

text \<open>
  C6, as stated, asks for every non-empty technology string in the prompt. A technology
  field holding three blanks is not empty, is dropped from the list, and is not a
  substring of the prompt.
\<close>

theorem blank_technology_counterexample:
  "project_title blank_tech2_form \<noteq> [] \<and> tech1 blank_tech2_form \<noteq> [] \<and>
   tech2 blank_tech2_form \<noteq> [] \<and>
   \<not> sublist (tech2 blank_tech2_form) (prompt blank_tech2_form)"
  by code_simp

text \<open>
  C6, amended. The prompt contains the decimal day number, the project title, and
  every one of the four technology inputs that is not empty after stripping
  whitespace; for a non-empty title and first technology this prompt is the one
  sent to the text-generation service.
\<close>

theorem prompt_contains_day_title_technologies:
  "sublist (str_int (day_number f)) (prompt f) \<and>
   sublist (project_title f) (prompt f) \<and>
   (\<forall>tech \<in> set [tech1 f, tech2 f, tech3 f, tech4 f].
      py_strip tech \<noteq> [] \<longrightarrow> sublist tech (prompt f)) \<and>
   (project_title f \<noteq> [] \<and> tech1 f \<noteq> [] \<longrightarrow>
      generation_calls (snd (generate_post w f ss)) = [prompt f])"
  using day_in_prompt title_in_prompt technology_in_prompt generate_post_calls by blast

theorem prompt_contains_day_title_technologies_witness:
  "py_strip ''React'' \<noteq> [] \<and> py_strip ''Node.js'' \<noteq> [] \<and>
   sublist ''5'' (prompt todo_form) \<and>
   sublist ''Todo App'' (prompt todo_form) \<and>
   sublist ''React'' (prompt todo_form) \<and>
   sublist ''Node.js'' (prompt todo_form) \<and>
   generation_calls (snd (generate_post world_ok todo_form Map.empty)) = [prompt todo_form]"
proof -
  have s: "str_int 5 = ''5''"
    by code_simp
  have a: "py_strip ''React'' \<noteq> []"
    by code_simp
  have b: "py_strip ''Node.js'' \<noteq> []"
    by code_simp
  show ?thesis
    using prompt_contains_day_title_technologies[of todo_form world_ok Map.empty] s a b
    by (simp add: todo_form_def)
qed

text \<open>
  C10. A first technology that consists of whitespace only passes the validation (the
  text-generation service is called), yet it is not in the technologies list; when the
  other three technology inputs are empty or whitespace too, the technology string is
  empty and the prompt's tech-stack line ends right after its label.
\<close>

theorem whitespace_technology_passes_validation:
  assumes "project_title f \<noteq> []" and "tech1 f \<noteq> []" and "py_strip (tech1 f) = []"
  shows "generation_calls (snd (generate_post w f ss)) = [prompt f] \<and>
         tech1 f \<notin> set (technologies f) \<and>
         (py_strip (tech2 f) = [] \<and> py_strip (tech3 f) = [] \<and> py_strip (tech4 f) = [] \<longrightarrow>
            tech_string f = [] \<and>
            sublist (high_voltage @ '' Tech Stack: '' @ ''\<newline>'') (prompt f))"
proof -
  have g: "generation_calls (snd (generate_post w f ss)) = [prompt f]"
    using assms(1,2) by (rule generate_post_calls)
  have n: "tech1 f \<notin> set (technologies f)"
    using assms(3) by (auto simp add: technologies_def)
  have e: "tech_string f = [] \<and>
      sublist (high_voltage @ '' Tech Stack: '' @ ''\<newline>'') (prompt f)"
    if "py_strip (tech2 f) = [] \<and> py_strip (tech3 f) = [] \<and> py_strip (tech4 f) = []"
  proof -
    from that assms(3) have t: "tech_string f = []"
      by (simp add: tech_string_def technologies_def)
    with tech_stack_line_in_prompt[of f] show ?thesis by simp
  qed
  from g n e show ?thesis by blast
qed

theorem whitespace_technology_passes_validation_witness:
  "project_title blank_tech1_form \<noteq> [] \<and> tech1 blank_tech1_form \<noteq> [] \<and>
   py_strip (tech1 blank_tech1_form) = [] \<and>
   py_strip (tech2 blank_tech1_form) = [] \<and> py_strip (tech3 blank_tech1_form) = [] \<and>
   py_strip (tech4 blank_tech1_form) = [] \<and>
   generation_calls (snd (generate_post world_ok blank_tech1_form Map.empty)) =
     [prompt blank_tech1_form] \<and>
   tech1 blank_tech1_form \<notin> set (technologies blank_tech1_form) \<and>
   tech_string blank_tech1_form = [] \<and>
   sublist (high_voltage @ '' Tech Stack: '' @ ''\<newline>'') (prompt blank_tech1_form)"
proof -
  have h1: "project_title blank_tech1_form \<noteq> []"
    by (simp add: blank_tech1_form_def)
  have h2: "tech1 blank_tech1_form \<noteq> []"
    by (simp add: blank_tech1_form_def)
  have h3: "py_strip (tech1 blank_tech1_form) = []"
    by code_simp
  have h4: "py_strip (tech2 blank_tech1_form) = [] \<and> py_strip (tech3 blank_tech1_form) = [] \<and>
      py_strip (tech4 blank_tech1_form) = []"
    by code_simp
  show ?thesis
    using whitespace_technology_passes_validation[OF h1 h2 h3, of world_ok Map.empty]
      h1 h2 h3 h4
    by blast
qed

subsection \<open>Clearing the draft\<close>

text \<open>
  C8. The clear action removes the generated draft from the session state. A publish
  attempt that follows without a new generation (the draft display does nothing on
  that state) is rejected with the error \<open>Please generate a post first!\<close> and makes no
  HTTP call.
\<close>

theorem publish_after_clear_is_rejected:
  "clear_and_start_over ss ''generated_post'' = None \<and>
   show_generated_post w media_type uploaded_file (clear_and_start_over ss) =
     (clear_and_start_over ss, []) \<and>
   publish_post w token uploaded_file (clear_and_start_over ss) =
     (None, [StError generate_first_notice]) \<and>
   http_calls (snd (publish_post w token uploaded_file (clear_and_start_over ss))) = []"
proof -
  have c: "clear_and_start_over ss ''generated_post'' = None"
    by (simp add: clear_and_start_over_def)
  show ?thesis
    using c by (simp add: show_generated_post_def publish_post_def)
qed

theorem publish_after_clear_is_rejected_witness:
  "example_session ''generated_post'' = Some ''Day 5 at NIAT'' \<and>
   clear_and_start_over example_session ''generated_post'' = None \<and>
   publish_post world_ok ''tok'' (Some png_file) (clear_and_start_over example_session) =
     (None, [StError generate_first_notice]) \<and>
   http_calls (snd (publish_post world_ok ''tok'' (Some png_file)
                      (clear_and_start_over example_session))) = []"
proof -
  have h: "example_session ''generated_post'' = Some ''Day 5 at NIAT''"
    by (simp add: example_session_def)
  show ?thesis
    using publish_after_clear_is_rejected[of example_session world_ok "''Image''"
        "Some png_file" "''tok''"] h
    by blast
qed

end
